theory Spec2Isabelle
  imports Main "HOL-Library.Word" "HOL-Library.AList"
begin

section \<open>Basic types\<close>

text \<open>
  \<open>common.Address\<close> (20 bytes) and \<open>common.Hash\<close> (32 bytes) are byte sequences;
  \<open>uint64\<close> is a 64-bit word, whose subtraction wraps around; \<open>*big.Int\<close> is an unbounded
  \<open>int\<close> (the pointer is taken to be non-nil, a nil one makes \<open>GasCost\<close> panic).
\<close>

type_synonym byte = "8 word"
type_synonym bytes = "byte list"
type_synonym address = bytes
type_synonym hash = bytes
type_synonym uint64 = "64 word"

section \<open>core/types: the Subscription entity\<close>

record Subscription =
  ID :: hash
  TargetContract :: address
  EventSignature :: hash
  SubscriberContract :: address
  CallbackAddress :: address
  CallbackSelector :: bytes
  GasLimit :: uint64
  GasPrice :: int
  DepositBalance :: int
  Active :: bool


record CallbackExecution =
  cbSubscriptionID :: hash
  cbSubscriberAddress :: address
  cbCallbackAddress :: address
  cbCallbackData :: bytes
  cbGasLimit :: uint64
  cbGasPrice :: int
  cbOriginalOrigin :: address

text \<open>\<open>types.Log\<close>, with the three fields the manager fills in.\<close>

record Log =
  Address :: address
  Topics :: "hash list"
  Data :: bytes

text \<open>
  The primitives of other packages that the two files call, taken as parameters:
  \<open>crypto.Keccak256Hash\<close> (applied to the concatenation of its arguments),
  \<open>common.BytesToHash\<close> and the constant \<open>params.SubscriptionManagerAddress\<close>.
\<close>

record Env =
  Keccak256Hash :: "bytes \<Rightarrow> hash"
  BytesToHash :: "bytes \<Rightarrow> hash"
  SubscriptionManagerAddress :: address

definition string_bytes :: "string \<Rightarrow> bytes" where
  "string_bytes s = map of_char s"

definition ComputeSubscriptionID :: "Env \<Rightarrow> address \<Rightarrow> hash \<Rightarrow> address \<Rightarrow> hash" where
  "ComputeSubscriptionID env target eventSig subscriber =
     Keccak256Hash env (target @ eventSig @ subscriber)"




definition GasCost :: "Subscription \<Rightarrow> int" where
  "GasCost s = uint (GasLimit s) * GasPrice s"

definition HasSufficientDeposit :: "Subscription \<Rightarrow> bool" where
  "HasSufficientDeposit s = (DepositBalance s \<ge> GasCost s)"

text \<open>\<open>DeductGas\<close> returns its boolean result and the receiver as it leaves it.\<close>

definition DeductGas :: "Subscription \<Rightarrow> bool \<times> Subscription" where
  "DeductGas s =
     (if \<not> HasSufficientDeposit s then (False, s)
      else (True, s\<lparr>DepositBalance := DepositBalance s - GasCost s\<rparr>))"

text \<open>The entity's \<open>RefundGas\<close>: \<open>GasLimit - gasUsed\<close> is a \<open>uint64\<close> subtraction.\<close>

definition Subscription_RefundGas :: "Subscription \<Rightarrow> uint64 \<Rightarrow> Subscription" where
  "Subscription_RefundGas s gasUsed =
     (let unusedGas = GasLimit s - gasUsed;
          refund = uint unusedGas * GasPrice s
      in s\<lparr>DepositBalance := DepositBalance s + refund\<rparr>)"

section \<open>The codec behind the persisted encoding\<close>







section \<open>The registry behind the manager\<close>

text \<open>
  Modelled from the spec: the \<open>StateDB\<close> interface the manager is given has no
  implementation among the sources. The spec's registry contract is: get a record by
  identity or find it absent; set, which fully overwrites the record of that identity;
  list the records of a (target, event signature) pair in a stable append order; append a
  log entry. The records are kept in an association list in the order in which their
  identities were first set, and the log is a list. Records are read and written back as
  values: every in-place change the manager makes to a record is followed by a
  \<open>SetSubscription\<close> of that record.
\<close>

record StateDB =
  subscriptions :: "(hash \<times> Subscription) list"
  logs :: "Log list"

definition statedb_GetSubscription :: "StateDB \<Rightarrow> hash \<Rightarrow> Subscription option" where
  "statedb_GetSubscription st subID = map_of (subscriptions st) subID"

definition statedb_SetSubscription :: "StateDB \<Rightarrow> hash \<Rightarrow> Subscription \<Rightarrow> StateDB" where
  "statedb_SetSubscription st subID sub =
     st\<lparr>subscriptions := AList.update subID sub (subscriptions st)\<rparr>"

definition statedb_GetSubscribers :: "StateDB \<Rightarrow> address \<Rightarrow> hash \<Rightarrow> Subscription list" where
  "statedb_GetSubscribers st target eventSig =
     filter (\<lambda>s. TargetContract s = target \<and> EventSignature s = eventSig)
       (map snd (subscriptions st))"

definition statedb_AddLog :: "StateDB \<Rightarrow> Log \<Rightarrow> StateDB" where
  "statedb_AddLog st l = st\<lparr>logs := logs st @ [l]\<rparr>"

section \<open>core/vm: the SubscriptionManager\<close>

datatype error = ErrInvalidSubscription | ErrInsufficientDeposit

definition created_log :: "Env \<Rightarrow> hash \<Rightarrow> address \<Rightarrow> hash \<Rightarrow> address \<Rightarrow> Log" where
  "created_log env subID target eventSig subscriber =
     \<lparr> Address = SubscriptionManagerAddress env,
       Topics = [BytesToHash env (string_bytes ''SubscriptionCreated''),
                 subID,
                 BytesToHash env target,
                 BytesToHash env subscriber],
       Data = eventSig \<rparr>"

definition removed_log :: "Env \<Rightarrow> hash \<Rightarrow> Log" where
  "removed_log env subID =
     \<lparr> Address = SubscriptionManagerAddress env,
       Topics = [BytesToHash env (string_bytes ''SubscriptionRemoved''), subID],
       Data = [] \<rparr>"

definition insufficient_log :: "Env \<Rightarrow> hash \<Rightarrow> Log" where
  "insufficient_log env subID =
     \<lparr> Address = SubscriptionManagerAddress env,
       Topics = [BytesToHash env (string_bytes ''InsufficientDeposit''), subID],
       Data = [] \<rparr>"

text \<open>
  Every operation takes the state of the registry and returns its result together with
  the state it leaves. \<open>Subscribe\<close> returns the identity and a nil error.
\<close>

definition Subscribe ::
  "Env \<Rightarrow> StateDB \<Rightarrow> address \<Rightarrow> hash \<Rightarrow> address \<Rightarrow> address \<Rightarrow> bytes \<Rightarrow> uint64 \<Rightarrow> int
     \<Rightarrow> (hash \<times> error option) \<times> StateDB" where
  "Subscribe env st target eventSig subscriber callback selector gasLimit gasPrice =
     (let subID = ComputeSubscriptionID env target eventSig subscriber in
      if (case statedb_GetSubscription st subID of
            None \<Rightarrow> False
          | Some existing \<Rightarrow> Active existing)
      then ((subID, None), st)
      else
        let sub = \<lparr> ID = subID,
                    TargetContract = target,
                    EventSignature = eventSig,
                    SubscriberContract = subscriber,
                    CallbackAddress = callback,
                    CallbackSelector = selector,
                    GasLimit = gasLimit,
                    GasPrice = gasPrice,
                    DepositBalance = 0,
                    Active = True \<rparr>;
            st1 = statedb_SetSubscription st subID sub;
            st2 = statedb_AddLog st1 (created_log env subID target eventSig subscriber)
        in ((subID, None), st2))"

definition Unsubscribe ::
  "Env \<Rightarrow> StateDB \<Rightarrow> address \<Rightarrow> hash \<Rightarrow> address \<Rightarrow> error option \<times> StateDB" where
  "Unsubscribe env st target eventSig subscriber =
     (let subID = ComputeSubscriptionID env target eventSig subscriber in
      case statedb_GetSubscription st subID of
        None \<Rightarrow> (None, st)
      | Some sub \<Rightarrow>
          if \<not> Active sub then (None, st)
          else
            let sub1 = sub\<lparr>Active := False\<rparr>;
                st1 = statedb_SetSubscription st subID sub1;
                st2 = statedb_AddLog st1 (removed_log env subID)
            in (None, st2))"

definition callback_of :: "bytes \<Rightarrow> address \<Rightarrow> Subscription \<Rightarrow> CallbackExecution" where
  "callback_of eventData origin sub =
     \<lparr> cbSubscriptionID = ID sub,
       cbSubscriberAddress = SubscriberContract sub,
       cbCallbackAddress = CallbackAddress sub,
       cbCallbackData = CallbackSelector sub @ eventData,
       cbGasLimit = GasLimit sub,
       cbGasPrice = GasPrice sub,
       cbOriginalOrigin = origin \<rparr>"

text \<open>
  The loop of \<open>NotifySubscribers\<close> over the records that \<open>GetSubscribers\<close> returned,
  carrying the registry and the callbacks collected so far.
\<close>

fun notify_loop ::
  "Env \<Rightarrow> bytes \<Rightarrow> address \<Rightarrow> Subscription list \<Rightarrow> CallbackExecution list \<times> StateDB
     \<Rightarrow> CallbackExecution list \<times> StateDB" where
  "notify_loop env eventData origin [] (callbacks, st) = (callbacks, st)"
| "notify_loop env eventData origin (sub # rest) (callbacks, st) =
     (if \<not> Active sub then notify_loop env eventData origin rest (callbacks, st)
      else if \<not> HasSufficientDeposit sub then
        notify_loop env eventData origin rest
          (callbacks, statedb_AddLog st (insufficient_log env (ID sub)))
      else
        (case DeductGas sub of
           (False, sub1) \<Rightarrow> notify_loop env eventData origin rest (callbacks, st)
         | (True, sub1) \<Rightarrow>
             notify_loop env eventData origin rest
               (callbacks @ [callback_of eventData origin sub1],
                statedb_SetSubscription st (ID sub1) sub1)))"

definition NotifySubscribers ::
  "Env \<Rightarrow> StateDB \<Rightarrow> address \<Rightarrow> hash \<Rightarrow> bytes \<Rightarrow> address \<Rightarrow> CallbackExecution list \<times> StateDB" where
  "NotifySubscribers env st target eventSig eventData origin =
     (let subscribers = statedb_GetSubscribers st target eventSig
      in notify_loop env eventData origin subscribers ([], st))"

definition Deposit :: "StateDB \<Rightarrow> hash \<Rightarrow> int \<Rightarrow> error option \<times> StateDB" where
  "Deposit st subID amount =
     (case statedb_GetSubscription st subID of
        None \<Rightarrow> (Some ErrInvalidSubscription, st)
      | Some sub \<Rightarrow>
          (None, statedb_SetSubscription st subID
                   (sub\<lparr>DepositBalance := DepositBalance sub + amount\<rparr>)))"

definition Withdraw :: "StateDB \<Rightarrow> hash \<Rightarrow> int \<Rightarrow> error option \<times> StateDB" where
  "Withdraw st subID amount =
     (case statedb_GetSubscription st subID of
        None \<Rightarrow> (Some ErrInvalidSubscription, st)
      | Some sub \<Rightarrow>
          if DepositBalance sub < amount then (Some ErrInsufficientDeposit, st)
          else (None, statedb_SetSubscription st subID
                        (sub\<lparr>DepositBalance := DepositBalance sub - amount\<rparr>)))"

definition GetBalance :: "StateDB \<Rightarrow> hash \<Rightarrow> int" where
  "GetBalance st subID =
     (case statedb_GetSubscription st subID of
        None \<Rightarrow> 0
      | Some sub \<Rightarrow> DepositBalance sub)"

definition GetSubscription :: "StateDB \<Rightarrow> hash \<Rightarrow> Subscription option" where
  "GetSubscription st subID = statedb_GetSubscription st subID"

definition RefundGas :: "StateDB \<Rightarrow> hash \<Rightarrow> uint64 \<Rightarrow> StateDB" where
  "RefundGas st subID gasUsed =
     (case statedb_GetSubscription st subID of
        None \<Rightarrow> st
      | Some sub \<Rightarrow> statedb_SetSubscription st subID (Subscription_RefundGas sub gasUsed))"

definition UpdateSubscription ::
  "StateDB \<Rightarrow> hash \<Rightarrow> uint64 \<Rightarrow> int \<Rightarrow> error option \<times> StateDB" where
  "UpdateSubscription st subID gasLimit gasPrice =
     (case statedb_GetSubscription st subID of
        None \<Rightarrow> (Some ErrInvalidSubscription, st)
      | Some sub \<Rightarrow>
          if \<not> Active sub then (Some ErrInvalidSubscription, st)
          else (None, statedb_SetSubscription st subID
                        (sub\<lparr>GasLimit := gasLimit, GasPrice := gasPrice\<rparr>)))"

section \<open>Properties of registry states\<close>

text \<open>
  A registry is well formed when it holds one record per identity and every record is
  stored under its own \<open>ID\<close>. The empty registry is well formed and every operation of the
  manager keeps it so (\<open>wf_statedb_run_operation\<close> below).
\<close>

definition wf_statedb :: "StateDB \<Rightarrow> bool" where
  "wf_statedb st =
     (distinct (map fst (subscriptions st))
      \<and> list_all (\<lambda>(k, s). ID s = k) (subscriptions st))"

definition balances_nonneg :: "StateDB \<Rightarrow> bool" where
  "balances_nonneg st = list_all (\<lambda>(k, s). 0 \<le> DepositBalance s) (subscriptions st)"

text \<open>The operations of the manager that change the registry, as one type of requests.\<close>

datatype operation =
    OpSubscribe address hash address address bytes uint64 int
  | OpUnsubscribe address hash address
  | OpNotifySubscribers address hash bytes address
  | OpDeposit hash int
  | OpWithdraw hash int
  | OpRefundGas hash uint64
  | OpUpdateSubscription hash uint64 int

fun run_operation :: "Env \<Rightarrow> operation \<Rightarrow> StateDB \<Rightarrow> StateDB" where
  "run_operation env (OpSubscribe target eventSig subscriber callback selector gasLimit gasPrice) st =
     snd (Subscribe env st target eventSig subscriber callback selector gasLimit gasPrice)"
| "run_operation env (OpUnsubscribe target eventSig subscriber) st =
     snd (Unsubscribe env st target eventSig subscriber)"
| "run_operation env (OpNotifySubscribers target eventSig eventData origin) st =
     snd (NotifySubscribers env st target eventSig eventData origin)"
| "run_operation env (OpDeposit subID amount) st = snd (Deposit st subID amount)"
| "run_operation env (OpWithdraw subID amount) st = snd (Withdraw st subID amount)"
| "run_operation env (OpRefundGas subID gasUsed) st = RefundGas st subID gasUsed"
| "run_operation env (OpUpdateSubscription subID gasLimit gasPrice) st =
     snd (UpdateSubscription st subID gasLimit gasPrice)"

text \<open>
  The conditions under which the deposit is expected to stay non-negative: a deposit of a
  non-negative amount, and a refund of no more gas than the record's limit.
\<close>

fun caller_obligations :: "StateDB \<Rightarrow> operation \<Rightarrow> bool" where
  "caller_obligations st (OpDeposit subID amount) = (0 \<le> amount)"
| "caller_obligations st (OpRefundGas subID gasUsed) =
     (case statedb_GetSubscription st subID of
        None \<Rightarrow> True
      | Some sub \<Rightarrow> gasUsed \<le> GasLimit sub)"
| "caller_obligations st _ = True"

text \<open>The same, with a refund only on a record whose gas price is not negative.\<close>

fun caller_obligations_priced :: "StateDB \<Rightarrow> operation \<Rightarrow> bool" where
  "caller_obligations_priced st (OpRefundGas subID gasUsed) =
     (case statedb_GetSubscription st subID of
        None \<Rightarrow> True
      | Some sub \<Rightarrow> gasUsed \<le> GasLimit sub \<and> 0 \<le> GasPrice sub)"
| "caller_obligations_priced st oper = caller_obligations st oper"

text \<open>
  What one pass of the notification loop does with a record: it is charged when it is
  active and funded, and the charged record is the one that is stored and reported.
\<close>

definition eligible :: "Subscription \<Rightarrow> bool" where
  "eligible s = (Active s \<and> HasSufficientDeposit s)"

definition charged :: "Subscription \<Rightarrow> Subscription" where
  "charged s = s\<lparr>DepositBalance := DepositBalance s - GasCost s\<rparr>"

section \<open>Sample data\<close>

text \<open>
  A stand-in for the external primitives and the values of the end-to-end scenario: one
  target, one event signature, two subscribers.
\<close>

definition sample_env :: Env where
  "sample_env =
     \<lparr> Keccak256Hash = (\<lambda>b. take 32 (rev b)),
       BytesToHash = (\<lambda>b. replicate (32 - length b) 0 @ b),
       SubscriptionManagerAddress = replicate 20 0x82 \<rparr>"

definition sample_target :: address where
  "sample_target = replicate 20 0xAA"

definition sample_sig :: hash where
  "sample_sig = replicate 32 0x11"

definition sample_subscriber :: address where
  "sample_subscriber = replicate 20 0xBB"

definition other_subscriber :: address where
  "other_subscriber = replicate 20 0xCC"

definition sample_id :: hash where
  "sample_id = replicate 20 0xBB @ replicate 12 0x11"

definition other_id :: hash where
  "other_id = replicate 20 0xCC @ replicate 12 0x11"

definition empty_statedb :: StateDB where
  "empty_statedb = \<lparr> subscriptions = [], logs = [] \<rparr>"

definition sample_sub :: Subscription where
  "sample_sub =
     \<lparr> ID = sample_id,
       TargetContract = sample_target,
       EventSignature = sample_sig,
       SubscriberContract = sample_subscriber,
       CallbackAddress = sample_subscriber,
       CallbackSelector = [0x01, 0x02, 0x03, 0x04],
       GasLimit = 100000,
       GasPrice = 1000,
       DepositBalance = 500000000,
       Active = True \<rparr>"

definition other_sub :: Subscription where
  "other_sub =
     \<lparr> ID = other_id,
       TargetContract = sample_target,
       EventSignature = sample_sig,
       SubscriberContract = other_subscriber,
       CallbackAddress = other_subscriber,
       CallbackSelector = [0x0A, 0x0B, 0x0C, 0x0D],
       GasLimit = 100000,
       GasPrice = 1000,
       DepositBalance = 7,
       Active = True \<rparr>"

text \<open>A registry with a funded and an underfunded subscription of the same event.\<close>

definition sample_statedb :: StateDB where
  "sample_statedb =
     \<lparr> subscriptions = [(sample_id, sample_sub), (other_id, other_sub)], logs = [] \<rparr>"

text \<open>A registry whose only record was cancelled with funds left in it.\<close>

definition cancelled_statedb :: StateDB where
  "cancelled_statedb =
     \<lparr> subscriptions = [(sample_id, sample_sub\<lparr>Active := False\<rparr>)], logs = [] \<rparr>"

text \<open>A registry whose only record was created with a negative gas price.\<close>

definition negative_price_sub :: Subscription where
  "negative_price_sub =
     \<lparr> ID = sample_id,
       TargetContract = sample_target,
       EventSignature = sample_sig,
       SubscriberContract = sample_subscriber,
       CallbackAddress = sample_subscriber,
       CallbackSelector = [0x01, 0x02, 0x03, 0x04],
       GasLimit = 10,
       GasPrice = - 1,
       DepositBalance = 0,
       Active = True \<rparr>"

definition sample_origin :: address where
  "sample_origin = replicate 20 0xCC"

definition negative_price_statedb :: StateDB where
  "negative_price_statedb =
     \<lparr> subscriptions = [(sample_id, negative_price_sub)],
       logs = [created_log sample_env sample_id sample_target sample_sig sample_subscriber] \<rparr>"

lemmas sample_defs =
  sample_env_def sample_target_def sample_sig_def sample_subscriber_def other_subscriber_def
  sample_id_def other_id_def empty_statedb_def sample_sub_def other_sub_def sample_statedb_def
  cancelled_statedb_def negative_price_sub_def negative_price_statedb_def sample_origin_def

lemmas statedb_defs =
  statedb_GetSubscription_def statedb_SetSubscription_def statedb_GetSubscribers_def
  statedb_AddLog_def

section \<open>The registry primitives\<close>

lemma get_set:
  "statedb_GetSubscription (statedb_SetSubscription st k v) k' =
     (if k' = k then Some v else statedb_GetSubscription st k')"
  by (simp add: statedb_GetSubscription_def statedb_SetSubscription_def update_conv')

lemma logs_set: "logs (statedb_SetSubscription st k v) = logs st"
  by (simp add: statedb_SetSubscription_def)

lemma get_addlog:
  "statedb_GetSubscription (statedb_AddLog st l) k = statedb_GetSubscription st k"
  by (simp add: statedb_GetSubscription_def statedb_AddLog_def)

lemma logs_addlog: "logs (statedb_AddLog st l) = logs st @ [l]"
  by (simp add: statedb_AddLog_def)

lemma stored_member:
  "statedb_GetSubscription st k = Some s \<Longrightarrow> (k, s) \<in> set (subscriptions st)"
  by (simp add: statedb_GetSubscription_def map_of_SomeD)

lemma list_all_update:
  "list_all P al \<Longrightarrow> P (k, v) \<Longrightarrow> list_all P (AList.update k v al)"
  by (induction al) auto

lemma uint_sub_le: "b \<le> a \<Longrightarrow> uint (a - b) = uint a - uint (b::'a::len word)"
  by (simp add: uint_minus_simple_alt)

lemma DeductGas_sufficient:
  "HasSufficientDeposit sub \<Longrightarrow>
     DeductGas sub = (True, sub\<lparr>DepositBalance := DepositBalance sub - GasCost sub\<rparr>)"
  by (simp add: DeductGas_def)

lemma sample_identity:
  "ComputeSubscriptionID sample_env sample_target sample_sig sample_subscriber = sample_id"
  by (simp add: ComputeSubscriptionID_def sample_defs)

section \<open>Well-formed registries\<close>

lemma wf_set:
  "wf_statedb st \<Longrightarrow> ID v = k \<Longrightarrow> wf_statedb (statedb_SetSubscription st k v)"
  by (simp add: wf_statedb_def statedb_SetSubscription_def list_all_update distinct_update)

lemma wf_addlog: "wf_statedb (statedb_AddLog st l) = wf_statedb st"
  by (simp add: wf_statedb_def statedb_AddLog_def)

lemma wf_stored:
  "wf_statedb st \<Longrightarrow> statedb_GetSubscription st k = Some s \<Longrightarrow> ID s = k"
  using stored_member [of st k s] by (auto simp: wf_statedb_def list_all_iff)

lemma wf_modify:
  assumes "wf_statedb st" and "statedb_GetSubscription st k = Some s" and "ID v = ID s"
  shows "wf_statedb (statedb_SetSubscription st k v)"
  using assms wf_stored [OF assms(1,2)] by (simp add: wf_set)

lemma wf_notify_loop:
  "wf_statedb st \<Longrightarrow> wf_statedb (snd (notify_loop env eventData origin xs (callbacks, st)))"
proof (induction xs arbitrary: callbacks st)
  case Nil
  then show ?case by simp
next
  case (Cons x xs)
  show ?case
  proof (cases "Active x \<and> HasSufficientDeposit x")
    case True
    have "wf_statedb (statedb_SetSubscription st (ID x)
            (x\<lparr>DepositBalance := DepositBalance x - GasCost x\<rparr>))"
      using Cons.prems by (simp add: wf_set)
    then show ?thesis
      using True by (simp add: DeductGas_sufficient Cons.IH)
  next
    case False
    then show ?thesis
      using Cons.prems by (auto simp: Cons.IH wf_addlog)
  qed
qed

lemma wf_statedb_empty: "wf_statedb empty_statedb"
  by (simp add: wf_statedb_def empty_statedb_def)

lemma wf_statedb_run_operation:
  assumes "wf_statedb st"
  shows "wf_statedb (run_operation env oper st)"
proof (cases oper)
  case (OpSubscribe target eventSig subscriber callback selector gasLimit gasPrice)
  then show ?thesis
    using assms by (simp add: Subscribe_def Let_def wf_addlog wf_set)
next
  case (OpUnsubscribe target eventSig subscriber)
  then show ?thesis
    using assms
    by (auto simp: Unsubscribe_def Let_def wf_addlog
        split: option.splits intro!: wf_modify)
next
  case (OpNotifySubscribers target eventSig eventData origin)
  then show ?thesis
    using assms by (simp add: NotifySubscribers_def wf_notify_loop)
next
  case (OpDeposit subID amount)
  then show ?thesis
    using assms by (auto simp: Deposit_def split: option.splits intro!: wf_modify)
next
  case (OpWithdraw subID amount)
  then show ?thesis
    using assms by (auto simp: Withdraw_def split: option.splits intro!: wf_modify)
next
  case (OpRefundGas subID gasUsed)
  then show ?thesis
    using assms
    by (auto simp: RefundGas_def Subscription_RefundGas_def Let_def
        split: option.splits intro!: wf_modify)
next
  case (OpUpdateSubscription subID gasLimit gasPrice)
  then show ?thesis
    using assms by (auto simp: UpdateSubscription_def split: option.splits intro!: wf_modify)
qed

lemma wf_ids:
  "wf_statedb st \<Longrightarrow> map ID (map snd (subscriptions st)) = map fst (subscriptions st)"
  by (auto simp: wf_statedb_def list_all_iff)

lemma subscribers_distinct:
  assumes "wf_statedb st"
  shows "distinct (map ID (statedb_GetSubscribers st target eventSig))"
proof -
  have "distinct (map ID (map snd (subscriptions st)))"
    using assms by (simp only: wf_ids) (simp add: wf_statedb_def)
  then show ?thesis
    unfolding statedb_GetSubscribers_def by (rule distinct_map_filter)
qed

lemma subscribers_stored:
  assumes "wf_statedb st" and "s \<in> set (statedb_GetSubscribers st target eventSig)"
  shows "statedb_GetSubscription st (ID s) = Some s"
proof -
  from assms(2) obtain k where mem: "(k, s) \<in> set (subscriptions st)"
    by (auto simp: statedb_GetSubscribers_def)
  with assms(1) have "ID s = k"
    by (auto simp: wf_statedb_def list_all_iff)
  with mem assms(1) show ?thesis
    by (simp add: statedb_GetSubscription_def wf_statedb_def)
qed

section \<open>The notification loop\<close>

lemma notify_loop_callbacks:
  "fst (notify_loop env eventData origin xs (callbacks, st)) =
     callbacks @ map (\<lambda>s. callback_of eventData origin (charged s)) (filter eligible xs)"
proof (induction xs arbitrary: callbacks st)
  case Nil
  show ?case by simp
next
  case (Cons x xs)
  show ?case
    by (simp add: Cons.IH eligible_def charged_def DeductGas_sufficient)
qed

lemma notify_loop_store:
  "map_of (subscriptions (snd (notify_loop env eventData origin xs (callbacks, st)))) =
     map_of (subscriptions st)
       ++ map_of (rev (map (\<lambda>s. (ID s, charged s)) (filter eligible xs)))"
proof (induction xs arbitrary: callbacks st)
  case Nil
  show ?case by simp
next
  case (Cons x xs)
  show ?case
  proof (cases "eligible x")
    case False
    then show ?thesis
      by (auto simp: Cons.IH eligible_def statedb_AddLog_def)
  next
    case True
    then have step: "notify_loop env eventData origin (x # xs) (callbacks, st) =
        notify_loop env eventData origin xs
          (callbacks @ [callback_of eventData origin (charged x)],
           statedb_SetSubscription st (ID x) (charged x))"
      by (simp add: eligible_def charged_def DeductGas_sufficient)
    have "map_of (subscriptions (snd (notify_loop env eventData origin (x # xs) (callbacks, st)))) =
        (map_of (subscriptions st))(ID x \<mapsto> charged x)
          ++ map_of (rev (map (\<lambda>s. (ID s, charged s)) (filter eligible xs)))"
      unfolding step
      by (simp add: Cons.IH statedb_SetSubscription_def update_conv' fun_upd_def)
    also have "\<dots> = map_of (subscriptions st)
          ++ map_of (rev (map (\<lambda>s. (ID s, charged s)) (filter eligible (x # xs))))"
      using True by (simp add: map_add_def fun_eq_iff split: option.splits)
    finally show ?thesis .
  qed
qed

section \<open>Subscribing\<close>

lemma Subscribe_active:
  assumes "statedb_GetSubscription st (ComputeSubscriptionID env target eventSig subscriber)
             = Some existing"
    and "Active existing"
  shows "Subscribe env st target eventSig subscriber callback selector gasLimit gasPrice =
           ((ComputeSubscriptionID env target eventSig subscriber, None), st)"
  using assms by (simp add: Subscribe_def)

lemma Subscribe_create:
  assumes "\<forall>existing.
             statedb_GetSubscription st (ComputeSubscriptionID env target eventSig subscriber)
               = Some existing \<longrightarrow> \<not> Active existing"
  shows "Subscribe env st target eventSig subscriber callback selector gasLimit gasPrice =
           ((ComputeSubscriptionID env target eventSig subscriber, None),
            statedb_AddLog
              (statedb_SetSubscription st (ComputeSubscriptionID env target eventSig subscriber)
                 \<lparr> ID = ComputeSubscriptionID env target eventSig subscriber,
                   TargetContract = target,
                   EventSignature = eventSig,
                   SubscriberContract = subscriber,
                   CallbackAddress = callback,
                   CallbackSelector = selector,
                   GasLimit = gasLimit,
                   GasPrice = gasPrice,
                   DepositBalance = 0,
                   Active = True \<rparr>)
              (created_log env (ComputeSubscriptionID env target eventSig subscriber)
                 target eventSig subscriber))"
  using assms by (simp add: Subscribe_def Let_def split: option.splits)

text \<open>
  Claim C3. When the record stored for the identity is inactive, \<open>Subscribe\<close> stores in
  its place a record made of the new arguments alone, with deposit 0 and the active flag
  set; nothing of the prior record, its deposit included, is kept.
\<close>

theorem Subscribe_replaces_inactive:
  assumes "statedb_GetSubscription st (ComputeSubscriptionID env target eventSig subscriber)
             = Some old"
    and "\<not> Active old"
  shows "statedb_GetSubscription
           (snd (Subscribe env st target eventSig subscriber callback selector gasLimit gasPrice))
           (ComputeSubscriptionID env target eventSig subscriber) =
         Some \<lparr> ID = ComputeSubscriptionID env target eventSig subscriber,
                TargetContract = target,
                EventSignature = eventSig,
                SubscriberContract = subscriber,
                CallbackAddress = callback,
                CallbackSelector = selector,
                GasLimit = gasLimit,
                GasPrice = gasPrice,
                DepositBalance = 0,
                Active = True \<rparr>
       \<and> GetBalance
           (snd (Subscribe env st target eventSig subscriber callback selector gasLimit gasPrice))
           (ComputeSubscriptionID env target eventSig subscriber) = 0"
  using assms by (simp add: Subscribe_create GetBalance_def get_set get_addlog)

theorem Subscribe_replaces_inactive_witness:
  "statedb_GetSubscription cancelled_statedb
     (ComputeSubscriptionID sample_env sample_target sample_sig sample_subscriber)
     = Some (sample_sub\<lparr>Active := False\<rparr>)
   \<and> \<not> Active (sample_sub\<lparr>Active := False\<rparr>)
   \<and> GetBalance cancelled_statedb sample_id = 500000000
   \<and> GetBalance
       (snd (Subscribe sample_env cancelled_statedb sample_target sample_sig sample_subscriber
               sample_subscriber [0x01, 0x02, 0x03, 0x04] 100000 1000))
       sample_id = 0"
proof -
  have stored: "statedb_GetSubscription cancelled_statedb
      (ComputeSubscriptionID sample_env sample_target sample_sig sample_subscriber)
      = Some (sample_sub\<lparr>Active := False\<rparr>)"
    by (simp add: sample_identity) (simp add: statedb_GetSubscription_def cancelled_statedb_def)
  have off: "\<not> Active (sample_sub\<lparr>Active := False\<rparr>)"
    by simp
  have before: "GetBalance cancelled_statedb sample_id = 500000000"
    by (simp add: GetBalance_def statedb_GetSubscription_def cancelled_statedb_def sample_sub_def)
  show ?thesis
    using Subscribe_replaces_inactive
            [OF stored off, of sample_subscriber "[0x01, 0x02, 0x03, 0x04]" 100000 1000]
      stored before
    by (simp add: sample_identity)
qed

text \<open>
  Claim C6. When \<open>Subscribe\<close> is called twice in succession with the same arguments, the
  first call creating the record (no active record of the identity was stored before it),
  both calls return the same identity and no error, the log grows by the one
  "subscription created" entry of the first call, the second call leaves the registry as
  the first left it, and the deposit of the identity is 0 after each call.
\<close>

theorem Subscribe_idempotent:
  assumes "\<forall>existing.
             statedb_GetSubscription st (ComputeSubscriptionID env target eventSig subscriber)
               = Some existing \<longrightarrow> \<not> Active existing"
    and "Subscribe env st target eventSig subscriber callback selector gasLimit gasPrice
           = ((id1, err1), st1)"
    and "Subscribe env st1 target eventSig subscriber callback selector gasLimit gasPrice
           = ((id2, err2), st2)"
  shows "id1 = ComputeSubscriptionID env target eventSig subscriber \<and> id2 = id1
       \<and> err1 = None \<and> err2 = None
       \<and> st2 = st1
       \<and> logs st2 = logs st @ [created_log env id1 target eventSig subscriber]
       \<and> GetBalance st1 id1 = 0 \<and> GetBalance st2 id1 = 0"
proof -
  let ?k = "ComputeSubscriptionID env target eventSig subscriber"
  let ?fresh = "\<lparr> ID = ?k, TargetContract = target, EventSignature = eventSig,
                   SubscriberContract = subscriber, CallbackAddress = callback,
                   CallbackSelector = selector, GasLimit = gasLimit, GasPrice = gasPrice,
                   DepositBalance = 0, Active = True \<rparr>"
  have first: "id1 = ?k" "err1 = None"
    "st1 = statedb_AddLog (statedb_SetSubscription st ?k ?fresh)
             (created_log env ?k target eventSig subscriber)"
    using assms(2)
    unfolding Subscribe_create [OF assms(1), of callback selector gasLimit gasPrice]
    by auto
  have stored: "statedb_GetSubscription st1 ?k = Some ?fresh"
    by (simp add: first(3) get_addlog get_set)
  have second: "Subscribe env st1 target eventSig subscriber callback selector gasLimit gasPrice
                  = ((?k, None), st1)"
    by (rule Subscribe_active [OF stored]) simp
  have again: "id2 = ?k" "err2 = None" "st2 = st1"
    using assms(3) second by simp_all
  have bal: "GetBalance st1 ?k = 0"
    by (simp add: GetBalance_def stored)
  have lg: "logs st1 = logs st @ [created_log env ?k target eventSig subscriber]"
    by (simp add: first(3) logs_addlog logs_set)
  show ?thesis
    using first(1,2) again bal lg by simp
qed

lemma sample_subscribe:
  "Subscribe sample_env empty_statedb sample_target sample_sig sample_subscriber
     sample_subscriber [0x01, 0x02, 0x03, 0x04] 100000 1000 =
   ((sample_id, None),
    \<lparr> subscriptions = [(sample_id, sample_sub\<lparr>DepositBalance := 0\<rparr>)],
      logs = [created_log sample_env sample_id sample_target sample_sig sample_subscriber] \<rparr>)"
  by (simp add: Subscribe_def Let_def sample_identity)
     (simp add: statedb_defs sample_defs)

theorem Subscribe_idempotent_witness:
  "statedb_GetSubscription empty_statedb
     (ComputeSubscriptionID sample_env sample_target sample_sig sample_subscriber) = None
   \<and> Subscribe sample_env
       (snd (Subscribe sample_env empty_statedb sample_target sample_sig sample_subscriber
               sample_subscriber [0x01, 0x02, 0x03, 0x04] 100000 1000))
       sample_target sample_sig sample_subscriber sample_subscriber [0x01, 0x02, 0x03, 0x04]
       100000 1000
     = ((sample_id, None),
        \<lparr> subscriptions = [(sample_id, sample_sub\<lparr>DepositBalance := 0\<rparr>)],
          logs = [created_log sample_env sample_id sample_target sample_sig sample_subscriber] \<rparr>)"
proof -
  let ?st1 = "\<lparr> subscriptions = [(sample_id, sample_sub\<lparr>DepositBalance := 0\<rparr>)],
      logs = [created_log sample_env sample_id sample_target sample_sig sample_subscriber] \<rparr>"
  let ?again = "Subscribe sample_env ?st1 sample_target sample_sig sample_subscriber
                  sample_subscriber [0x01, 0x02, 0x03, 0x04] 100000 1000"
  have absent: "statedb_GetSubscription empty_statedb
      (ComputeSubscriptionID sample_env sample_target sample_sig sample_subscriber) = None"
    by (simp add: statedb_GetSubscription_def empty_statedb_def)
  then have fresh: "\<forall>existing. statedb_GetSubscription empty_statedb
      (ComputeSubscriptionID sample_env sample_target sample_sig sample_subscriber)
        = Some existing \<longrightarrow> \<not> Active existing"
    by simp
  have second: "?again = ((fst (fst ?again), snd (fst ?again)), snd ?again)"
    by simp
  note idem = Subscribe_idempotent [OF fresh sample_subscribe second]
  from idem have "fst (fst ?again) = sample_id" "snd (fst ?again) = None" "snd ?again = ?st1"
    by simp_all
  then have "?again = ((sample_id, None), ?st1)"
    by (simp add: prod_eq_iff)
  then show ?thesis
    using absent by (simp add: sample_subscribe)
qed

section \<open>The persisted encoding\<close>







section \<open>Withdrawals and unknown identities\<close>

text \<open>
  Claim C2. For an identity with a stored record, \<open>Withdraw\<close> succeeds exactly when the
  amount is at most the record's deposit; on success the new deposit is the old one minus
  the amount; otherwise the error is \<open>ErrInsufficientDeposit\<close> and the registry, and
  with it the deposit, is unchanged.
\<close>

theorem Withdraw_safety:
  assumes "statedb_GetSubscription st subID = Some sub"
  shows "(fst (Withdraw st subID amount) = None \<longleftrightarrow> amount \<le> DepositBalance sub)
       \<and> (amount \<le> DepositBalance sub \<longrightarrow>
            GetBalance (snd (Withdraw st subID amount)) subID = DepositBalance sub - amount)
       \<and> (\<not> amount \<le> DepositBalance sub \<longrightarrow>
            Withdraw st subID amount = (Some ErrInsufficientDeposit, st)
            \<and> GetBalance (snd (Withdraw st subID amount)) subID = DepositBalance sub)"
  using assms by (simp add: Withdraw_def GetBalance_def get_set)

theorem Withdraw_safety_witness:
  "statedb_GetSubscription sample_statedb sample_id = Some sample_sub
   \<and> fst (Withdraw sample_statedb sample_id 200) = None
   \<and> GetBalance (snd (Withdraw sample_statedb sample_id 200)) sample_id = 499999800
   \<and> Withdraw sample_statedb sample_id 500000001 = (Some ErrInsufficientDeposit, sample_statedb)"
proof -
  have stored: "statedb_GetSubscription sample_statedb sample_id = Some sample_sub"
    by (simp add: statedb_GetSubscription_def sample_statedb_def)
  have bal: "DepositBalance sample_sub = 500000000"
    by (simp add: sample_sub_def)
  show ?thesis
    using Withdraw_safety [OF stored, of 200] Withdraw_safety [OF stored, of 500000001] stored
    by (simp add: bal)
qed

text \<open>
  Claim C9. For an identity with no stored record, \<open>Deposit\<close>, \<open>Withdraw\<close> and
  \<open>UpdateSubscription\<close> each return \<open>ErrInvalidSubscription\<close> and leave the registry as
  it was, and \<open>GetBalance\<close> returns 0.
\<close>

theorem unknown_identity:
  assumes "statedb_GetSubscription st subID = None"
  shows "Deposit st subID amount = (Some ErrInvalidSubscription, st)
       \<and> Withdraw st subID amount = (Some ErrInvalidSubscription, st)
       \<and> UpdateSubscription st subID gasLimit gasPrice = (Some ErrInvalidSubscription, st)
       \<and> GetBalance st subID = 0"
  using assms by (simp add: Deposit_def Withdraw_def UpdateSubscription_def GetBalance_def)

theorem unknown_identity_witness:
  "statedb_GetSubscription empty_statedb sample_id = None
   \<and> Deposit empty_statedb sample_id 5 = (Some ErrInvalidSubscription, empty_statedb)
   \<and> Withdraw empty_statedb sample_id 5 = (Some ErrInvalidSubscription, empty_statedb)
   \<and> UpdateSubscription empty_statedb sample_id 7 9 = (Some ErrInvalidSubscription, empty_statedb)
   \<and> GetBalance empty_statedb sample_id = 0"
proof -
  have absent: "statedb_GetSubscription empty_statedb sample_id = None"
    by (simp add: statedb_GetSubscription_def empty_statedb_def)
  show ?thesis
    using unknown_identity [OF absent, of 5 7 9] absent by simp
qed

section \<open>Refunds\<close>

text \<open>
  Claim C4. For an identity with a stored record and \<open>gasUsed \<le> gasLimit\<close>, the record
  stored after \<open>RefundGas\<close> is the record before it with the deposit increased by
  \<open>(gasLimit - gasUsed) * gasPrice\<close>, the difference and the product being those of
  unbounded integers, and with every other field as it was.
\<close>

theorem RefundGas_exact:
  assumes "statedb_GetSubscription st subID = Some sub" and "gasUsed \<le> GasLimit sub"
  shows "statedb_GetSubscription (RefundGas st subID gasUsed) subID =
           Some (sub\<lparr>DepositBalance :=
                   DepositBalance sub + (uint (GasLimit sub) - uint gasUsed) * GasPrice sub\<rparr>)"
  using assms by (simp add: RefundGas_def Subscription_RefundGas_def get_set uint_sub_le)

theorem RefundGas_exact_witness:
  "statedb_GetSubscription sample_statedb sample_id = Some sample_sub
   \<and> (40000 :: uint64) \<le> GasLimit sample_sub
   \<and> statedb_GetSubscription (RefundGas sample_statedb sample_id 40000) sample_id =
       Some (sample_sub\<lparr>DepositBalance := 560000000\<rparr>)"
proof -
  have stored: "statedb_GetSubscription sample_statedb sample_id = Some sample_sub"
    by (simp add: statedb_GetSubscription_def sample_statedb_def)
  have le: "(40000 :: uint64) \<le> GasLimit sample_sub"
    by (simp add: sample_sub_def)
  have val: "DepositBalance sample_sub = 500000000" "GasPrice sample_sub = 1000"
    "uint (GasLimit sample_sub) = 100000"
    by (simp_all add: sample_sub_def)
  show ?thesis
    using RefundGas_exact [OF stored le] stored le by (simp add: val)
qed

text \<open>
  Claim C5. \<open>RefundGas\<close> does not compare \<open>gasUsed\<close> with \<open>gasLimit\<close>: when
  \<open>gasUsed > gasLimit\<close> the 64-bit difference wraps around, and the amount added to the
  deposit is \<open>((gasLimit - gasUsed) mod 2^64) * gasPrice\<close>, whose first factor is
  \<open>2^64 - (gasUsed - gasLimit)\<close> and so not zero; the call does not fail.
\<close>

theorem RefundGas_wraps:
  assumes "statedb_GetSubscription st subID = Some sub" and "GasLimit sub < gasUsed"
  shows "Subscription_RefundGas sub gasUsed =
           sub\<lparr>DepositBalance := DepositBalance sub
                  + ((uint (GasLimit sub) - uint gasUsed) mod 2 ^ 64) * GasPrice sub\<rparr>
       \<and> statedb_GetSubscription (RefundGas st subID gasUsed) subID =
           Some (Subscription_RefundGas sub gasUsed)
       \<and> (uint (GasLimit sub) - uint gasUsed) mod 2 ^ 64
           = 2 ^ 64 - (uint gasUsed - uint (GasLimit sub))
       \<and> 0 < (uint (GasLimit sub) - uint gasUsed) mod 2 ^ 64"
proof -
  have lt: "uint (GasLimit sub) < uint gasUsed"
    using assms(2) by (simp add: word_less_def)
  have w: "uint (GasLimit sub - gasUsed) = (uint (GasLimit sub) - uint gasUsed) mod 2 ^ 64"
    by (simp add: uint_word_ariths)
  have m: "(uint (GasLimit sub) - uint gasUsed) mod 2 ^ 64
             = 2 ^ 64 - (uint gasUsed - uint (GasLimit sub))"
    using lt uint_sub_if' [of "GasLimit sub" gasUsed] w by simp
  have b: "uint gasUsed < 2 ^ 64"
    using uint_lt2p [of gasUsed] by simp
  have g: "0 \<le> uint (GasLimit sub)" by simp
  have pos: "(0::int) < 2 ^ 64 - (uint gasUsed - uint (GasLimit sub))"
    using b g by linarith
  show ?thesis
    using assms(1) w m pos
    by (simp add: RefundGas_def Subscription_RefundGas_def get_set)
qed

theorem RefundGas_wraps_witness:
  "statedb_GetSubscription sample_statedb sample_id = Some sample_sub
   \<and> GasLimit sample_sub < (100001 :: uint64)
   \<and> statedb_GetSubscription (RefundGas sample_statedb sample_id 100001) sample_id =
       Some (sample_sub\<lparr>DepositBalance := 500000000 + 18446744073709551615 * 1000\<rparr>)"
proof -
  have stored: "statedb_GetSubscription sample_statedb sample_id = Some sample_sub"
    by (simp add: statedb_GetSubscription_def sample_statedb_def)
  have lt: "GasLimit sample_sub < (100001 :: uint64)"
    by (simp add: sample_sub_def)
  have val: "DepositBalance sample_sub = 500000000" "GasPrice sample_sub = 1000"
    "uint (GasLimit sample_sub) = 100000" "uint (100001 :: uint64) = 100001"
    by (simp_all add: sample_sub_def)
  show ?thesis
    using RefundGas_wraps [OF stored lt] stored lt by (simp add: val)
qed

section \<open>Notification\<close>

text \<open>
  Claim C1. In a well-formed registry, every callback that \<open>NotifySubscribers\<close> returns
  names a stored subscription that was active and whose deposit covered
  \<open>gasLimit * gasPrice\<close> before the call, and whose stored deposit after the call is the
  deposit before it minus \<open>gasLimit * gasPrice\<close>; the record of every identity that is
  not named by a returned callback is the same after the call as before it.
\<close>

theorem NotifySubscribers_selection:
  assumes "wf_statedb st"
    and "NotifySubscribers env st target eventSig eventData origin = (callbacks, st')"
  shows "(\<forall>cb \<in> set callbacks. \<exists>sub.
            statedb_GetSubscription st (cbSubscriptionID cb) = Some sub
            \<and> Active sub
            \<and> uint (GasLimit sub) * GasPrice sub \<le> DepositBalance sub
            \<and> GetBalance st' (cbSubscriptionID cb) =
                DepositBalance sub - uint (GasLimit sub) * GasPrice sub)
       \<and> (\<forall>k. k \<notin> cbSubscriptionID ` set callbacks \<longrightarrow>
            statedb_GetSubscription st' k = statedb_GetSubscription st k)"
proof -
  let ?xs = "statedb_GetSubscribers st target eventSig"
  let ?L = "map (\<lambda>s. (ID s, charged s)) (filter eligible ?xs)"
  have cbs: "callbacks = map (\<lambda>s. callback_of eventData origin (charged s)) (filter eligible ?xs)"
    using assms(2) notify_loop_callbacks [of env eventData origin ?xs "[]" st]
    by (simp add: NotifySubscribers_def)
  have store: "map_of (subscriptions st') = map_of (subscriptions st) ++ map_of (rev ?L)"
    using assms(2) notify_loop_store [of env eventData origin ?xs "[]" st]
    by (simp add: NotifySubscribers_def)
  have keys: "map fst ?L = map ID (filter eligible ?xs)"
    by (simp add: comp_def)
  have dist: "distinct (map fst (rev ?L))"
    using distinct_map_filter [OF subscribers_distinct [OF assms(1)], of eligible target eventSig]
    by (simp only: keys rev_map [symmetric] distinct_rev)
  have ids: "cbSubscriptionID ` set callbacks = fst ` set ?L"
    by (auto simp: cbs callback_of_def charged_def image_iff)
  have selected: "\<exists>sub. statedb_GetSubscription st (cbSubscriptionID cb) = Some sub
            \<and> Active sub
            \<and> uint (GasLimit sub) * GasPrice sub \<le> DepositBalance sub
            \<and> GetBalance st' (cbSubscriptionID cb) =
                DepositBalance sub - uint (GasLimit sub) * GasPrice sub"
    if "cb \<in> set callbacks" for cb
  proof -
    from that obtain s where s: "s \<in> set ?xs" "eligible s"
      and cb: "cb = callback_of eventData origin (charged s)"
      by (auto simp: cbs)
    have k: "cbSubscriptionID cb = ID s"
      by (simp add: cb callback_of_def charged_def)
    have "(ID s, charged s) \<in> set (rev ?L)"
      using s by auto
    with dist have "map_of (rev ?L) (ID s) = Some (charged s)"
      by (rule map_of_is_SomeI)
    then have "statedb_GetSubscription st' (ID s) = Some (charged s)"
      by (simp add: statedb_GetSubscription_def store)
    then have bal: "GetBalance st' (ID s) = DepositBalance s - uint (GasLimit s) * GasPrice s"
      by (simp add: GetBalance_def charged_def GasCost_def)
    have "statedb_GetSubscription st (ID s) = Some s"
      using assms(1) s(1) by (rule subscribers_stored)
    moreover have "Active s" "uint (GasLimit s) * GasPrice s \<le> DepositBalance s"
      using s(2) by (simp_all add: eligible_def HasSufficientDeposit_def GasCost_def)
    ultimately show ?thesis
      using bal k by simp
  qed
  have skipped: "statedb_GetSubscription st' k = statedb_GetSubscription st k"
    if "k \<notin> cbSubscriptionID ` set callbacks" for k
  proof -
    from that have "k \<notin> fst ` set (rev ?L)"
      by (simp add: ids)
    then have "map_of (rev ?L) k = None"
      by (simp only: map_of_eq_None_iff not_False_eq_True)
    then show ?thesis
      by (simp add: statedb_GetSubscription_def store map_add_def)
  qed
  show ?thesis
    using selected skipped by blast
qed

lemma sample_notify:
  "NotifySubscribers sample_env sample_statedb sample_target sample_sig [0xFF] sample_origin =
     ([callback_of [0xFF] sample_origin (sample_sub\<lparr>DepositBalance := 400000000\<rparr>)],
      \<lparr> subscriptions = [(sample_id, sample_sub\<lparr>DepositBalance := 400000000\<rparr>),
                         (other_id, other_sub)],
        logs = [insufficient_log sample_env other_id] \<rparr>)"
  by (simp add: NotifySubscribers_def statedb_defs sample_defs HasSufficientDeposit_def
      GasCost_def DeductGas_def callback_of_def)

theorem NotifySubscribers_selection_witness:
  "wf_statedb sample_statedb
   \<and> cbSubscriptionID ` set (fst (NotifySubscribers sample_env sample_statedb sample_target
                                  sample_sig [0xFF] sample_origin)) = {sample_id}
   \<and> GetBalance (snd (NotifySubscribers sample_env sample_statedb sample_target
                        sample_sig [0xFF] sample_origin)) sample_id = 400000000
   \<and> statedb_GetSubscription (snd (NotifySubscribers sample_env sample_statedb sample_target
                        sample_sig [0xFF] sample_origin)) other_id = Some other_sub"
proof -
  let ?cb = "callback_of [0xFF] sample_origin (sample_sub\<lparr>DepositBalance := 400000000\<rparr>)"
  let ?st' = "snd (NotifySubscribers sample_env sample_statedb sample_target
                     sample_sig [0xFF] sample_origin)"
  have wf: "wf_statedb sample_statedb"
    by (simp add: wf_statedb_def sample_defs)
  have run: "NotifySubscribers sample_env sample_statedb sample_target sample_sig [0xFF]
               sample_origin = ([?cb], ?st')"
    by (simp add: sample_notify)
  have idcb: "cbSubscriptionID ?cb = sample_id"
    by (simp add: callback_of_def sample_sub_def)
  have stored: "statedb_GetSubscription sample_statedb sample_id = Some sample_sub"
    by (simp add: statedb_GetSubscription_def sample_statedb_def)
  have other: "statedb_GetSubscription sample_statedb other_id = Some other_sub"
    "other_id \<noteq> sample_id"
    by (simp_all add: statedb_GetSubscription_def sample_defs)
  note sel = NotifySubscribers_selection [OF wf run]
  from sel have "\<exists>sub. statedb_GetSubscription sample_statedb (cbSubscriptionID ?cb) = Some sub
      \<and> GetBalance ?st' (cbSubscriptionID ?cb) =
          DepositBalance sub - uint (GasLimit sub) * GasPrice sub"
    by auto
  then have bal: "GetBalance ?st' sample_id = 400000000"
    by (simp add: idcb stored) (simp add: sample_sub_def)
  from sel have "other_id \<notin> cbSubscriptionID ` set [?cb] \<longrightarrow>
      statedb_GetSubscription ?st' other_id = statedb_GetSubscription sample_statedb other_id"
    by blast
  then have keep: "statedb_GetSubscription ?st' other_id = Some other_sub"
    using other by (simp add: idcb)
  show ?thesis
    using wf bal keep by (simp add: sample_notify idcb)
qed

text \<open>
  Claim C10. \<open>DeductGas\<close> returns true exactly when \<open>HasSufficientDeposit\<close> holds, and
  in the loop of \<open>NotifySubscribers\<close> it is called only after that check has passed: a
  pass of the loop over a record is the skip of an inactive record, the logged skip of an
  underfunded one, or the charge; the skip on a false result of \<open>DeductGas\<close> is never taken.
\<close>

theorem DeductGas_failure_unreachable:
  "fst (DeductGas sub) = HasSufficientDeposit sub
   \<and> notify_loop env eventData origin (sub # rest) (callbacks, st) =
       (if \<not> Active sub then notify_loop env eventData origin rest (callbacks, st)
        else if \<not> HasSufficientDeposit sub then
          notify_loop env eventData origin rest
            (callbacks, statedb_AddLog st (insufficient_log env (ID sub)))
        else
          notify_loop env eventData origin rest
            (callbacks @ [callback_of eventData origin
                            (sub\<lparr>DepositBalance := DepositBalance sub - GasCost sub\<rparr>)],
             statedb_SetSubscription st (ID sub)
               (sub\<lparr>DepositBalance := DepositBalance sub - GasCost sub\<rparr>)))"
  by (simp add: DeductGas_def)

theorem DeductGas_failure_unreachable_witness:
  "Active sample_sub \<and> HasSufficientDeposit sample_sub \<and> fst (DeductGas sample_sub)
   \<and> notify_loop sample_env [0xFF] sample_origin [sample_sub] ([], sample_statedb) =
       ([callback_of [0xFF] sample_origin (sample_sub\<lparr>DepositBalance := 400000000\<rparr>)],
        statedb_SetSubscription sample_statedb sample_id
          (sample_sub\<lparr>DepositBalance := 400000000\<rparr>))"
proof -
  have a: "Active sample_sub" "HasSufficientDeposit sample_sub"
    "DepositBalance sample_sub - GasCost sample_sub = 400000000" "ID sample_sub = sample_id"
    by (simp_all add: sample_sub_def HasSufficientDeposit_def GasCost_def)
  show ?thesis
    using DeductGas_failure_unreachable
            [of sample_sub sample_env "[0xFF]" sample_origin "[]" "[]" sample_statedb] a
    by simp
qed

section \<open>The deposit never goes negative\<close>

lemma nonneg_set:
  "balances_nonneg st \<Longrightarrow> 0 \<le> DepositBalance v \<Longrightarrow>
     balances_nonneg (statedb_SetSubscription st k v)"
  by (simp add: balances_nonneg_def statedb_SetSubscription_def list_all_update)

lemma nonneg_addlog: "balances_nonneg (statedb_AddLog st l) = balances_nonneg st"
  by (simp add: balances_nonneg_def statedb_AddLog_def)

lemma nonneg_stored:
  "balances_nonneg st \<Longrightarrow> statedb_GetSubscription st k = Some s \<Longrightarrow> 0 \<le> DepositBalance s"
  using stored_member [of st k s] by (auto simp: balances_nonneg_def list_all_iff)

lemma nonneg_modify:
  assumes "balances_nonneg st" and "statedb_GetSubscription st k = Some s"
    and "0 \<le> DepositBalance s \<Longrightarrow> 0 \<le> DepositBalance v"
  shows "balances_nonneg (statedb_SetSubscription st k v)"
  using assms nonneg_stored [OF assms(1,2)] by (simp add: nonneg_set)

lemma nonneg_notify_loop:
  "balances_nonneg st \<Longrightarrow>
     balances_nonneg (snd (notify_loop env eventData origin xs (callbacks, st)))"
proof (induction xs arbitrary: callbacks st)
  case Nil
  then show ?case by simp
next
  case (Cons x xs)
  show ?case
  proof (cases "Active x \<and> HasSufficientDeposit x")
    case True
    then have "0 \<le> DepositBalance x - GasCost x"
      by (simp add: HasSufficientDeposit_def)
    then have "balances_nonneg (statedb_SetSubscription st (ID x)
                 (x\<lparr>DepositBalance := DepositBalance x - GasCost x\<rparr>))"
      using Cons.prems by (simp add: nonneg_set)
    then show ?thesis
      using True by (simp add: DeductGas_sufficient Cons.IH)
  next
    case False
    then show ?thesis
      using Cons.prems by (auto simp: Cons.IH nonneg_addlog)
  qed
qed

text \<open>
  Claim C8, as the code has it. When every stored deposit is non-negative, it is so again
  after any operation of the manager, provided that a \<open>Deposit\<close> is of a non-negative
  amount and that a \<open>RefundGas\<close> is of \<open>gasUsed \<le> gasLimit\<close> on a record whose gas
  price is not negative.
\<close>

theorem deposit_nonneg_invariant:
  assumes "balances_nonneg st" and "caller_obligations_priced st oper"
  shows "balances_nonneg (run_operation env oper st)"
proof (cases oper)
  case (OpSubscribe target eventSig subscriber callback selector gasLimit gasPrice)
  then show ?thesis
    using assms(1) by (simp add: Subscribe_def Let_def nonneg_addlog nonneg_set)
next
  case (OpUnsubscribe target eventSig subscriber)
  then show ?thesis
    using assms(1)
    by (auto simp: Unsubscribe_def Let_def nonneg_addlog
        split: option.splits intro!: nonneg_modify)
next
  case (OpNotifySubscribers target eventSig eventData origin)
  then show ?thesis
    using assms(1) by (simp add: NotifySubscribers_def nonneg_notify_loop)
next
  case (OpDeposit subID amount)
  then show ?thesis
    using assms
    by (auto simp: Deposit_def split: option.splits intro!: nonneg_modify)
next
  case (OpWithdraw subID amount)
  then show ?thesis
    using assms(1)
    by (auto simp: Withdraw_def split: option.splits intro!: nonneg_modify)
next
  case (OpRefundGas subID gasUsed)
  show ?thesis
  proof (cases "statedb_GetSubscription st subID")
    case None
    then show ?thesis
      using assms(1) OpRefundGas by (simp add: RefundGas_def)
  next
    case (Some sub)
    with assms(2) OpRefundGas have pre: "gasUsed \<le> GasLimit sub" "0 \<le> GasPrice sub"
      by simp_all
    have "0 \<le> DepositBalance sub"
      using assms(1) Some by (rule nonneg_stored)
    moreover have "0 \<le> uint (GasLimit sub - gasUsed) * GasPrice sub"
      using pre(2) by simp
    ultimately have "0 \<le> DepositBalance (Subscription_RefundGas sub gasUsed)"
      by (simp add: Subscription_RefundGas_def)
    then show ?thesis
      using assms(1) Some OpRefundGas by (simp add: RefundGas_def nonneg_set)
  qed
next
  case (OpUpdateSubscription subID gasLimit gasPrice)
  then show ?thesis
    using assms(1)
    by (auto simp: UpdateSubscription_def split: option.splits intro!: nonneg_modify)
qed

theorem deposit_nonneg_invariant_witness:
  "balances_nonneg sample_statedb
   \<and> caller_obligations_priced sample_statedb (OpRefundGas sample_id 40000)
   \<and> balances_nonneg (run_operation sample_env (OpRefundGas sample_id 40000) sample_statedb)
   \<and> GetBalance (run_operation sample_env (OpRefundGas sample_id 40000) sample_statedb)
       sample_id = 560000000"
proof -
  have inv: "balances_nonneg sample_statedb"
    by (simp add: balances_nonneg_def sample_defs)
  have pre: "caller_obligations_priced sample_statedb (OpRefundGas sample_id 40000)"
    by (simp add: statedb_GetSubscription_def sample_statedb_def) (simp add: sample_sub_def)
  have bal: "GetBalance (run_operation sample_env (OpRefundGas sample_id 40000) sample_statedb)
               sample_id = 560000000"
    by (simp add: RefundGas_def GetBalance_def Subscription_RefundGas_def statedb_defs
        sample_statedb_def)
       (simp add: sample_sub_def)
  show ?thesis
    using deposit_nonneg_invariant [OF inv pre, of sample_env] inv pre bal by simp
qed

text \<open>
  Claim C8 as stated, with no condition on the gas price, fails: \<open>Subscribe\<close>
  accepts a gas price of \<open>-1\<close>, and on the record it creates, whose deposit is 0 and whose
  gas limit is 10, a refund of \<open>gasUsed = 0\<close> takes the deposit to \<open>-10\<close>.
\<close>

theorem deposit_negative_after_refund:
  "snd (Subscribe sample_env empty_statedb sample_target sample_sig sample_subscriber
          sample_subscriber [0x01, 0x02, 0x03, 0x04] 10 (- 1)) = negative_price_statedb
   \<and> balances_nonneg negative_price_statedb
   \<and> caller_obligations negative_price_statedb (OpRefundGas sample_id 0)
   \<and> GetBalance (run_operation sample_env (OpRefundGas sample_id 0) negative_price_statedb)
       sample_id = - 10
   \<and> \<not> balances_nonneg
         (run_operation sample_env (OpRefundGas sample_id 0) negative_price_statedb)"
proof -
  have made: "snd (Subscribe sample_env empty_statedb sample_target sample_sig sample_subscriber
          sample_subscriber [0x01, 0x02, 0x03, 0x04] 10 (- 1)) = negative_price_statedb"
    by (simp add: Subscribe_def Let_def sample_identity)
       (simp add: statedb_defs sample_defs)
  have inv: "balances_nonneg negative_price_statedb"
    by (simp add: balances_nonneg_def negative_price_statedb_def negative_price_sub_def)
  have pre: "caller_obligations negative_price_statedb (OpRefundGas sample_id 0)"
    by (simp add: statedb_GetSubscription_def negative_price_statedb_def)
  have after: "RefundGas negative_price_statedb sample_id 0 =
      negative_price_statedb
        \<lparr>subscriptions := [(sample_id, negative_price_sub\<lparr>DepositBalance := - 10\<rparr>)]\<rparr>"
    by (simp add: RefundGas_def Subscription_RefundGas_def statedb_defs
        negative_price_statedb_def)
       (simp add: negative_price_sub_def)
  have bal: "GetBalance (run_operation sample_env (OpRefundGas sample_id 0) negative_price_statedb)
       sample_id = - 10"
    by (simp add: after GetBalance_def statedb_GetSubscription_def)
  have neg: "\<not> balances_nonneg
         (run_operation sample_env (OpRefundGas sample_id 0) negative_price_statedb)"
    by (simp add: after balances_nonneg_def)
  show ?thesis
    using made inv pre bal neg by simp
qed

section \<open>The end-to-end scenario\<close>

text \<open>
  The scenario of the specification, run on the model: subscribe, deposit 500000000,
  notify with event data \<open>[0xFF]\<close>. One callback comes back, with the selector followed
  by the event data, and 100000 * 1000 is taken from the deposit.
\<close>

lemma end_to_end_scenario:
  fixes st1 st2 st3 :: StateDB
  defines "st1 \<equiv> snd (Subscribe sample_env empty_statedb sample_target sample_sig
                          sample_subscriber sample_subscriber [0x01, 0x02, 0x03, 0x04]
                          100000 1000)"
    and "st2 \<equiv> snd (Deposit st1 sample_id 500000000)"
    and "st3 \<equiv> snd (NotifySubscribers sample_env st2 sample_target sample_sig [0xFF]
                        sample_origin)"
  shows "GetBalance st1 sample_id = 0"
    and "GetBalance st2 sample_id = 500000000"
    and "map cbCallbackData
           (fst (NotifySubscribers sample_env st2 sample_target sample_sig [0xFF] sample_origin))
         = [[0x01, 0x02, 0x03, 0x04, 0xFF]]"
    and "GetBalance st3 sample_id = 400000000"
proof -
  have s1: "st1 = \<lparr> subscriptions = [(sample_id, sample_sub\<lparr>DepositBalance := 0\<rparr>)],
      logs = [created_log sample_env sample_id sample_target sample_sig sample_subscriber] \<rparr>"
    unfolding st1_def
    by (simp add: Subscribe_def Let_def sample_identity) (simp add: statedb_defs sample_defs)
  have s2: "st2 = \<lparr> subscriptions = [(sample_id, sample_sub)],
      logs = [created_log sample_env sample_id sample_target sample_sig sample_subscriber] \<rparr>"
    unfolding st2_def s1
    by (simp add: Deposit_def statedb_defs) (simp add: sample_sub_def)
  have n: "NotifySubscribers sample_env st2 sample_target sample_sig [0xFF] sample_origin =
      ([callback_of [0xFF] sample_origin (sample_sub\<lparr>DepositBalance := 400000000\<rparr>)],
       \<lparr> subscriptions = [(sample_id, sample_sub\<lparr>DepositBalance := 400000000\<rparr>)],
         logs = [created_log sample_env sample_id sample_target sample_sig sample_subscriber] \<rparr>)"
    unfolding s2
    by (simp add: NotifySubscribers_def statedb_defs sample_defs HasSufficientDeposit_def
        GasCost_def DeductGas_def callback_of_def)
  show "GetBalance st1 sample_id = 0"
    by (simp add: s1 GetBalance_def statedb_GetSubscription_def)
  show "GetBalance st2 sample_id = 500000000"
    by (simp add: s2 GetBalance_def statedb_GetSubscription_def sample_sub_def)
  show "map cbCallbackData
           (fst (NotifySubscribers sample_env st2 sample_target sample_sig [0xFF] sample_origin))
         = [[0x01, 0x02, 0x03, 0x04, 0xFF]]"
    by (simp add: n callback_of_def sample_sub_def)
  show "GetBalance st3 sample_id = 400000000"
    by (simp add: st3_def n GetBalance_def statedb_GetSubscription_def)
qed

end
